theory Spec2Isabelle
  imports Main
begin

section \<open>Python values, errors and dictionaries\<close>

text \<open>
  The checker of \<^verbatim>\<open>src/dq.py\<close> handles configuration values (attribute values, the
  metric value, the comparison result), rows returned by the database and dictionaries
  keyed by strings. Scalars are \<open>None\<close>, booleans, integers and strings; floating-point
  values are outside the model. Strings are byte strings, so the model speaks of ASCII
  text.
\<close>

datatype pyval = PNone | PBool bool | PInt int | PStr string

text \<open>The exceptions that the checker, the standard library or a callee can raise.\<close>

datatype error =
    KeyError pyval
  | IndexError
  | ValueError
  | FileNotFoundError string
  | ModuleNotFoundError string
  | AttributeError string
  | ExternalError string

text \<open>
  A Python \<open>dict\<close> keeps its keys in insertion order, so it is an association list.
  \<open>dict_set\<close> is \<^verbatim>\<open>d[k] = v\<close>: an existing key keeps its position and takes the new
  value, a new key goes to the end. \<open>dict_or\<close> is the operator \<^verbatim>\<open>a | b\<close>: a copy
  of \<open>a\<close> updated with the items of \<open>b\<close> in their order. \<open>dict_get\<close> is \<^verbatim>\<open>d[k]\<close>,
  which raises \<open>KeyError\<close> on a missing key.
\<close>

type_synonym 'v pydict = "(string \<times> 'v) list"

fun dict_set :: "string \<Rightarrow> 'v \<Rightarrow> 'v pydict \<Rightarrow> 'v pydict" where
  "dict_set k v [] = [(k, v)]"
| "dict_set k v ((k', v') # d) =
     (if k' = k then (k', v) # d else (k', v') # dict_set k v d)"

definition dict_or :: "'v pydict \<Rightarrow> 'v pydict \<Rightarrow> 'v pydict" where
  "dict_or a b = fold (\<lambda>(k, v) d. dict_set k v d) b a"

definition dict_get :: "'v pydict \<Rightarrow> string \<Rightarrow> error + 'v" where
  "dict_get d k = (case map_of d k of None \<Rightarrow> Inl (KeyError (PStr k)) | Some v \<Rightarrow> Inr v)"

definition keys :: "'v pydict \<Rightarrow> string set" where
  "keys d = fst ` set d"

text \<open>A dictionary holds each key once.\<close>

definition is_dict :: "'v pydict \<Rightarrow> bool" where
  "is_dict d = distinct (map fst d)"

section \<open>Strings\<close>

text \<open>
  \<open>lower\<close> is \<^verbatim>\<open>str.lower()\<close> on ASCII text: the letters \<open>A\<close> to \<open>Z\<close> move to
  \<open>a\<close> to \<open>z\<close>, every other character stays.
\<close>

definition lower_char :: "char \<Rightarrow> char" where
  "lower_char c =
     (case map_of (zip ''ABCDEFGHIJKLMNOPQRSTUVWXYZ'' ''abcdefghijklmnopqrstuvwxyz'') c of
        Some l \<Rightarrow> l
      | None \<Rightarrow> c)"

definition lower :: "string \<Rightarrow> string" where
  "lower s = map lower_char s"

text \<open>
  \<open>py_str\<close> is \<^verbatim>\<open>str(v)\<close>, which is also \<^verbatim>\<open>format(v, '')\<close> for these values. Python
  refuses by default to convert an integer of more than 4300 decimal digits (the sign
  not counted) to a string; \<open>renderable\<close> holds of the values that \<^verbatim>\<open>str\<close> converts.
\<close>

definition digit_char :: "nat \<Rightarrow> char" where
  "digit_char n = ''0123456789'' ! n"

fun str_nat :: "nat \<Rightarrow> string" where
  "str_nat n =
     (if n < 10 then [digit_char n] else str_nat (n div 10) @ [digit_char (n mod 10)])"

declare str_nat.simps [simp del]

definition str_int :: "int \<Rightarrow> string" where
  "str_int i = (if i < 0 then CHR ''-'' # str_nat (nat (- i)) else str_nat (nat i))"

fun py_str :: "pyval \<Rightarrow> string" where
  "py_str PNone = ''None''"
| "py_str (PBool b) = (if b then ''True'' else ''False'')"
| "py_str (PInt i) = str_int i"
| "py_str (PStr s) = s"

fun renderable :: "pyval \<Rightarrow> bool" where
  "renderable (PInt i) = (length (str_nat (nat \<bar>i\<bar>)) \<le> 4300)"
| "renderable v = True"

section \<open>Query templating: \<^verbatim>\<open>str.format\<close> called with keyword arguments only\<close>

text \<open>
  Line 95 renders the query with \<^verbatim>\<open>template.format(**attrs)\<close>. The model follows
  the scanner of \<^verbatim>\<open>str.format\<close>: literal text, the escapes \<^verbatim>\<open>{{\<close> and \<^verbatim>\<open>}}\<close>, and
  replacement fields \<^verbatim>\<open>{field_name!conversion:format_spec}\<close>.

  \<open>scan_field_name\<close> reads a field name up to \<^verbatim>\<open>}\<close>, \<^verbatim>\<open>:\<close> or \<^verbatim>\<open>!\<close>; inside
  \<^verbatim>\<open>[...]\<close> (the flag) nothing but \<^verbatim>\<open>]\<close> is special; a \<^verbatim>\<open>{\<close> in the name and the end
  of the template are errors. \<open>scan_format_spec\<close> reads a format specification up to
  the brace that closes the field, counting nested braces.
\<close>

datatype field = Field (field_name: string) (conversion: "char option") (format_spec: string)

fun scan_field_name :: "bool \<Rightarrow> string \<Rightarrow> string \<Rightarrow> error + (string \<times> char \<times> string)" where
  "scan_field_name b acc [] = Inl ValueError"
| "scan_field_name True acc (c # cs) = scan_field_name (c \<noteq> CHR '']'') (acc @ [c]) cs"
| "scan_field_name False acc (c # cs) =
     (if c = CHR ''{'' then Inl ValueError
      else if c = CHR ''['' then scan_field_name True (acc @ [c]) cs
      else if c = CHR ''}'' \<or> c = CHR '':'' \<or> c = CHR ''!'' then Inr (acc, c, cs)
      else scan_field_name False (acc @ [c]) cs)"

fun scan_format_spec :: "nat \<Rightarrow> string \<Rightarrow> string \<Rightarrow> error + (string \<times> string)" where
  "scan_format_spec n acc [] = Inl ValueError"
| "scan_format_spec n acc (c # cs) =
     (if c = CHR ''{'' then scan_format_spec (Suc n) (acc @ [c]) cs
      else if c = CHR ''}'' then
        (case n of 0 \<Rightarrow> Inr (acc, cs) | Suc m \<Rightarrow> scan_format_spec m (acc @ [c]) cs)
      else scan_format_spec n (acc @ [c]) cs)"

text \<open>
  \<open>parse_field\<close> gets the template after an opening brace and returns the field and the
  rest of the template after the closing brace.
\<close>

definition parse_field :: "string \<Rightarrow> error + (field \<times> string)" where
  "parse_field s =
     (case scan_field_name False [] s of
        Inl e \<Rightarrow> Inl e
      | Inr (name, c, rest) \<Rightarrow>
          if c = CHR ''}'' then Inr (Field name None [], rest)
          else if c = CHR '':'' then
            (case scan_format_spec 0 [] rest of
               Inl e \<Rightarrow> Inl e
             | Inr (spec, rest') \<Rightarrow> Inr (Field name None spec, rest'))
          else
            (case rest of
               [] \<Rightarrow> Inl ValueError
             | conv # r \<Rightarrow>
                 (case r of
                    [] \<Rightarrow> Inl ValueError
                  | c2 # r2 \<Rightarrow>
                      if c2 = CHR ''}'' then Inr (Field name (Some conv) [], r2)
                      else if c2 \<noteq> CHR '':'' then Inl ValueError
                      else
                        (case scan_format_spec 0 [] r2 of
                           Inl e \<Rightarrow> Inl e
                         | Inr (spec, rest') \<Rightarrow> Inr (Field name (Some conv) spec, rest')))))"

lemma scan_field_name_length:
  "scan_field_name b acc s = Inr (name, c, rest) \<Longrightarrow> length rest < length s"
  by (induction b acc s rule: scan_field_name.induct) (auto split: if_splits)

lemma scan_format_spec_length:
  "scan_format_spec n acc s = Inr (spec, rest) \<Longrightarrow> length rest < length s"
  by (induction n acc s rule: scan_format_spec.induct) (auto split: if_splits nat.splits)

lemma parse_field_length:
  assumes "parse_field s = Inr (f, rest)"
  shows "length rest < length s"
proof -
  from assms obtain name c r0 where
    n: "scan_field_name False [] s = Inr (name, c, r0)"
    by (auto simp: parse_field_def split: sum.splits)
  have r0: "length r0 < length s"
    using scan_field_name_length [OF n] .
  have "length rest \<le> length r0"
    using assms n
    by (auto simp: parse_field_def split: sum.splits if_splits list.splits
             dest!: scan_format_spec_length)
  with r0 show ?thesis by simp
qed

text \<open>
  \<open>markup\<close> cuts a template into literal characters and replacement fields, up to the
  end of the template or to the first syntax error: a single \<^verbatim>\<open>}\<close>, a single \<^verbatim>\<open>{\<close> at
  the end, or a field that does not parse.
\<close>

datatype segment = Literal char | Replacement field

definition emit :: "segment \<Rightarrow> segment list \<times> error option \<Rightarrow> segment list \<times> error option" where
  "emit x r = (x # fst r, snd r)"

function markup :: "string \<Rightarrow> segment list \<times> error option" where
  "markup [] = ([], None)"
| "markup (c # cs) =
     (if c = CHR ''}'' then
        (case cs of
           [] \<Rightarrow> ([], Some ValueError)
         | c2 # r \<Rightarrow> if c2 = CHR ''}'' then emit (Literal c) (markup r) else ([], Some ValueError))
      else if c = CHR ''{'' then
        (case cs of
           [] \<Rightarrow> ([], Some ValueError)
         | c2 # r \<Rightarrow>
             if c2 = CHR ''{'' then emit (Literal c) (markup r)
             else
               (case parse_field cs of
                  Inl e \<Rightarrow> ([], Some e)
                | Inr (f, rest) \<Rightarrow> emit (Replacement f) (markup rest)))
      else emit (Literal c) (markup cs))"
  by pat_completeness auto
termination
  by (relation "measure length") (auto dest: parse_field_length)

declare markup.simps [simp del]

text \<open>
  The first part of a field name, up to \<^verbatim>\<open>.\<close> or \<^verbatim>\<open>[\<close>, names the argument.
  \<open>get_integer\<close> reads it as an index: it goes through the characters, gives up at the
  first that is not a digit (the name is then no index) and raises \<open>ValueError\<close> as soon
  as the digits read so far exceed \<open>2 ^ 63 - 1\<close>, the largest index of a 64-bit build,
  also when a character that is not a digit comes later. An empty name or an index asks
  for a positional argument; \<^verbatim>\<open>format(**attrs)\<close> passes none, so that is an
  \<open>IndexError\<close>. Any other name is a keyword and is looked up among the keyword
  arguments.
\<close>

definition is_digit :: "char \<Rightarrow> bool" where
  "is_digit c = (c \<in> set ''0123456789'')"

definition digit_value :: "char \<Rightarrow> int" where
  "digit_value c = int (length (takeWhile (\<lambda>d. d \<noteq> c) ''0123456789''))"

fun get_integer_from :: "int \<Rightarrow> string \<Rightarrow> error + int option" where
  "get_integer_from accumulator [] = Inr (Some accumulator)"
| "get_integer_from accumulator (c # cs) =
     (if \<not> is_digit c then Inr None
      else if accumulator > (9223372036854775807 - digit_value c) div 10 then Inl ValueError
      else get_integer_from (accumulator * 10 + digit_value c) cs)"

definition get_integer :: "string \<Rightarrow> error + int option" where
  "get_integer s = (if s = [] then Inr None else get_integer_from 0 s)"

definition arg_name :: "string \<Rightarrow> string" where
  "arg_name fn = takeWhile (\<lambda>c. c \<noteq> CHR ''.'' \<and> c \<noteq> CHR ''['') fn"

definition accessors :: "string \<Rightarrow> string" where
  "accessors fn = dropWhile (\<lambda>c. c \<noteq> CHR ''.'' \<and> c \<noteq> CHR ''['') fn"

definition is_keyword :: "string \<Rightarrow> bool" where
  "is_keyword first = (first \<noteq> [] \<and> get_integer first = Inr None)"

definition get_field_object :: "pyval pydict \<Rightarrow> string \<Rightarrow> error + pyval" where
  "get_field_object kwargs first =
     (case get_integer first of
        Inl e \<Rightarrow> Inl e
      | Inr (Some index) \<Rightarrow> Inl IndexError
      | Inr None \<Rightarrow> if first = [] then Inl IndexError else dict_get kwargs first)"

text \<open>
  A field with no accessor, no format specification and no conversion (or \<^verbatim>\<open>!s\<close>) is
  replaced by \<^verbatim>\<open>str\<close> of the value. Attribute and index access, the other
  conversions, format specifications (with their nested fields) and the integers that
  \<^verbatim>\<open>str\<close> refuses belong to the value's own formatting protocol, which the model takes
  as the parameter \<open>protocol\<close>.
\<close>

type_synonym format_protocol =
  "pyval pydict \<Rightarrow> pyval \<Rightarrow> string \<Rightarrow> char option \<Rightarrow> string \<Rightarrow> error + string"

definition render_field :: "format_protocol \<Rightarrow> pyval pydict \<Rightarrow> field \<Rightarrow> error + string" where
  "render_field protocol kwargs f =
     (case get_field_object kwargs (arg_name (field_name f)) of
        Inl e \<Rightarrow> Inl e
      | Inr obj \<Rightarrow>
          if accessors (field_name f) = [] \<and> format_spec f = []
             \<and> (conversion f = None \<or> conversion f = Some CHR ''s'') \<and> renderable obj
          then Inr (py_str obj)
          else protocol kwargs obj (accessors (field_name f)) (conversion f) (format_spec f))"

fun render_segments :: "format_protocol \<Rightarrow> pyval pydict \<Rightarrow> segment list \<Rightarrow> error + string" where
  "render_segments protocol kwargs [] = Inr []"
| "render_segments protocol kwargs (Literal c # segs) =
     (case render_segments protocol kwargs segs of
        Inl e \<Rightarrow> Inl e
      | Inr out \<Rightarrow> Inr (c # out))"
| "render_segments protocol kwargs (Replacement f # segs) =
     (case render_field protocol kwargs f of
        Inl e \<Rightarrow> Inl e
      | Inr s \<Rightarrow>
          (case render_segments protocol kwargs segs of
             Inl e \<Rightarrow> Inl e
           | Inr out \<Rightarrow> Inr (s @ out)))"

text \<open>
  \<^verbatim>\<open>str.format\<close> renders each field when it meets it, so an error of a field comes
  before a syntax error further on in the template.
\<close>

definition format_kw :: "format_protocol \<Rightarrow> string \<Rightarrow> pyval pydict \<Rightarrow> error + string" where
  "format_kw protocol template kwargs =
     (case markup template of
        (segs, err) \<Rightarrow>
          (case render_segments protocol kwargs segs of
             Inl e \<Rightarrow> Inl e
           | Inr out \<Rightarrow> (case err of Some e \<Rightarrow> Inl e | None \<Rightarrow> Inr out)))"






definition plain_name :: "string \<Rightarrow> bool" where
  "plain_name n =
     (is_keyword n \<and> list_all (\<lambda>c. \<not> digit7 c) n \<and> list_all (\<lambda>c. c \<notin> set ''{}[].:!'') n)"






section \<open>The checker and the world around it\<close>

text \<open>A row is a tuple of column values and a query returns a list of rows.\<close>

type_synonym row = "pyval list"
type_synonym rowset = "row list"

text \<open>
  Modelled from the spec: a metric definition, the entry of a metric in the table of
  \<^verbatim>\<open>metrics_description.yml\<close>, a file that is not among the sources. The specification
  gives an entry an action name, a comparator name and a documentation string, the
  three fields that \<^verbatim>\<open>__init__\<close> reads. The table itself, a dictionary from metric
  names to entries, is a parameter of the constructor.
\<close>

record metric_description =
  md_action :: string
  md_comparator :: string
  md_prometheus_documentation :: string

record checker =
  metric_name :: string
  prometheus_metric_prefix :: string
  prometheus_metric_name :: string
  sources :: "(pyval pydict) pydict"
  attributes :: "pyval pydict"
  connections :: "(pyval pydict) pydict"
  prometheus_gateway :: "string option"
  action :: string
  comparator :: string
  prometheus_documentation :: string

text \<open>
  \<^verbatim>\<open>__init__\<close> (lines 17 to 44). The lookup of the metric name in the table is the one
  step that can fail. The logger and \<open>base_dir\<close> belong to the environment below.
\<close>

definition init ::
  "metric_description pydict \<Rightarrow> string \<Rightarrow> string \<Rightarrow> (pyval pydict) pydict \<Rightarrow> pyval pydict
     \<Rightarrow> (pyval pydict) pydict \<Rightarrow> string option \<Rightarrow> error + checker" where
  "init table name prefix srcs attrs conns gateway =
     (case dict_get table name of
        Inl e \<Rightarrow> Inl e
      | Inr description \<Rightarrow>
          Inr \<lparr> metric_name = name,
                prometheus_metric_prefix = lower prefix,
                prometheus_metric_name = lower name,
                sources = srcs,
                attributes = attrs,
                connections = conns,
                prometheus_gateway = gateway,
                action = md_action description,
                comparator = md_comparator description,
                prometheus_documentation = md_prometheus_documentation description \<rparr>)"

text \<open>
  What \<^verbatim>\<open>check\<close> does to the outside world is a list of events, each with the answer
  it got: a template file read, a query sent to a database, a module import, a call of
  a plugin's \<^verbatim>\<open>run\<close>, a push to the gateway. A push is the library calls of
  \<^verbatim>\<open>send_metric_to_prometheus\<close> taken together (the gauge is built, its value is set,
  the registry is pushed); its request holds their arguments, \<open>gauge_value\<close> being the
  argument of \<^verbatim>\<open>set\<close>, which the library converts to a float. Logging is left out: it
  never changes the control flow.
\<close>

record push_request =
  gauge_name :: string
  gauge_documentation :: string
  gauge_labelnames :: "string list"
  gauge_labels :: "string pydict"
  gauge_value :: pyval
  push_gateway :: "string option"
  push_job :: string

datatype callargs = Positional "rowset list" | Keywords "pyval pydict"

datatype event =
    ReadFile string "error + string"
  | Fetch "pyval pydict" string "error + rowset"
  | Import string "error option"
  | Call string callargs "error + pyval"
  | Push push_request "error option"

text \<open>
  The environment answers each request; an answer may depend on everything that
  happened before (the event list), so a database may answer the same query
  differently the second time. A module has a \<^verbatim>\<open>run\<close> attribute or not.
  \<open>root_folder\<close> is the last component of \<open>base_dir\<close>, the directory of the module, and
  \<open>value_protocol\<close> is the formatting protocol of the values.
\<close>

record pymodule =
  run :: "(event list \<Rightarrow> callargs \<Rightarrow> error + pyval) option"

record env =
  root_folder :: string
  value_protocol :: format_protocol
  read_file :: "event list \<Rightarrow> string \<Rightarrow> error + string"
  pg_fetchall :: "event list \<Rightarrow> pyval pydict \<Rightarrow> string \<Rightarrow> error + rowset"
  import_module :: "event list \<Rightarrow> string \<Rightarrow> error + pymodule"
  push_to_gateway :: "event list \<Rightarrow> push_request \<Rightarrow> error option"

text \<open>\<^verbatim>\<open>read_sql_file\<close> (lines 52 to 56) and \<^verbatim>\<open>fetchall\<close> (lines 58 to 63).\<close>

definition read_sql_file :: "env \<Rightarrow> event list \<Rightarrow> string \<Rightarrow> event list \<times> (error + string)" where
  "read_sql_file env h file_path =
     (let content = read_file env h file_path in (h @ [ReadFile file_path content], content))"

definition fetchall ::
  "env \<Rightarrow> event list \<Rightarrow> pyval pydict \<Rightarrow> string \<Rightarrow> event list \<times> (error + rowset)" where
  "fetchall env h conn_params query =
     (let records = pg_fetchall env h conn_params query
      in (h @ [Fetch conn_params query records], records))"

text \<open>
  The template of a metric is \<^verbatim>\<open>metrics/<metric name in lower case>/metric.sql\<close> under
  the base directory (line 93).
\<close>

definition sql_path :: "checker \<Rightarrow> string" where
  "sql_path c = ''metrics/'' @ lower (metric_name c) @ ''/metric.sql''"

text \<open>
  \<^verbatim>\<open>self.connections[source_params["connection"]]\<close> (line 98): both lookups raise
  \<open>KeyError\<close>. The connections are named by strings, so a reference that is not a string
  names none of them.
\<close>

definition lookup_connection :: "checker \<Rightarrow> pyval pydict \<Rightarrow> error + pyval pydict" where
  "lookup_connection c source_params =
     (case dict_get source_params ''connection'' of
        Inl e \<Rightarrow> Inl e
      | Inr v \<Rightarrow> (case v of PStr n \<Rightarrow> dict_get (connections c) n | _ \<Rightarrow> Inl (KeyError v)))"

text \<open>The body of the loop over the sources (lines 89 to 100), for one source.\<close>

definition query_source ::
  "env \<Rightarrow> checker \<Rightarrow> event list \<Rightarrow> pyval pydict \<Rightarrow> event list \<times> (error + rowset)" where
  "query_source env c h source_params =
     (let attrs = dict_or (attributes c) source_params in
      case read_sql_file env h (sql_path c) of
        (h1, Inl e) \<Rightarrow> (h1, Inl e)
      | (h1, Inr template) \<Rightarrow>
          (case format_kw (value_protocol env) template attrs of
             Inl e \<Rightarrow> (h1, Inl e)
           | Inr query \<Rightarrow>
               (case lookup_connection c source_params of
                  Inl e \<Rightarrow> (h1, Inl e)
                | Inr conn_params \<Rightarrow> fetchall env h1 conn_params query)))"

text \<open>
  The loop (lines 87 to 101): the sources in the order of the dictionary, the rows of
  each appended to \<open>values_to_compare\<close>; the first exception leaves the loop.
\<close>

fun query_sources ::
  "env \<Rightarrow> checker \<Rightarrow> event list \<Rightarrow> (pyval pydict) pydict \<Rightarrow> rowset list
     \<Rightarrow> event list \<times> (error + rowset list)" where
  "query_sources env c h [] values_to_compare = (h, Inr values_to_compare)"
| "query_sources env c h ((source, source_params) # rest) values_to_compare =
     (case query_source env c h source_params of
        (h1, Inl e) \<Rightarrow> (h1, Inl e)
      | (h1, Inr rows) \<Rightarrow> query_sources env c h1 rest (values_to_compare @ [rows]))"

text \<open>
  The plugin modules (lines 14, 15, 103 to 108 and 115 to 120):
  \<^verbatim>\<open><root folder>.actions.<action>.action\<close> and
  \<^verbatim>\<open><root folder>.comparators.<comparator>.comparator\<close>. \<open>run_module\<close> imports the
  module, takes its \<^verbatim>\<open>run\<close> attribute and calls it.
\<close>

definition action_module :: "env \<Rightarrow> checker \<Rightarrow> string" where
  "action_module env c = root_folder env @ ''.actions.'' @ action c @ ''.action''"

definition comparator_module :: "env \<Rightarrow> checker \<Rightarrow> string" where
  "comparator_module env c = root_folder env @ ''.comparators.'' @ comparator c @ ''.comparator''"

definition run_module ::
  "env \<Rightarrow> event list \<Rightarrow> string \<Rightarrow> callargs \<Rightarrow> event list \<times> (error + pyval)" where
  "run_module env h name args =
     (case import_module env h name of
        Inl e \<Rightarrow> (h @ [Import name (Some e)], Inl e)
      | Inr m \<Rightarrow>
          (case run m of
             None \<Rightarrow> (h @ [Import name None], Inl (AttributeError ''run''))
           | Some f \<Rightarrow>
               (let r = f (h @ [Import name None]) args
                in (h @ [Import name None, Call name args r], r))))"

text \<open>\<^verbatim>\<open>send_metric_to_prometheus\<close> (lines 65 to 79).\<close>

definition gauge_request :: "checker \<Rightarrow> pyval \<Rightarrow> push_request" where
  "gauge_request c v =
     \<lparr> gauge_name = prometheus_metric_name c,
       gauge_documentation = prometheus_documentation c,
       gauge_labelnames = [''instance''],
       gauge_labels = [(''instance'', ''dq'')],
       gauge_value = v,
       push_gateway = prometheus_gateway c,
       push_job = prometheus_metric_prefix c \<rparr>"

definition send_metric_to_prometheus ::
  "env \<Rightarrow> checker \<Rightarrow> event list \<Rightarrow> pyval \<Rightarrow> event list \<times> error option" where
  "send_metric_to_prometheus env c h v =
     (let r = push_to_gateway env h (gauge_request c v)
      in (h @ [Push (gauge_request c v) r], r))"

text \<open>\<^verbatim>\<open>if self.prometheus_gateway:\<close> (line 111): \<open>None\<close> and the empty string are false.\<close>

definition truthy :: "string option \<Rightarrow> bool" where
  "truthy g = (case g of None \<Rightarrow> False | Some s \<Rightarrow> s \<noteq> [])"

text \<open>
  \<^verbatim>\<open>check\<close> (lines 81 to 122) starts from an empty event list and returns the events
  with the outcome: an exception, or the normal return of \<open>None\<close>.
\<close>

definition check :: "env \<Rightarrow> checker \<Rightarrow> event list \<times> (error + unit)" where
  "check env c =
     (case query_sources env c [] (sources c) [] of
        (h1, Inl e) \<Rightarrow> (h1, Inl e)
      | (h1, Inr values_to_compare) \<Rightarrow>
          (case run_module env h1 (action_module env c) (Positional values_to_compare) of
             (h2, Inl e) \<Rightarrow> (h2, Inl e)
           | (h2, Inr metric_value) \<Rightarrow>
               (case (if truthy (prometheus_gateway c)
                      then send_metric_to_prometheus env c h2 metric_value
                      else (h2, None)) of
                  (h3, Some e) \<Rightarrow> (h3, Inl e)
                | (h3, None) \<Rightarrow>
                    (let comparison_kwargs = dict_or (attributes c) [(''metric'', metric_value)]
                     in case run_module env h3 (comparator_module env c)
                               (Keywords comparison_kwargs) of
                          (h4, Inl e) \<Rightarrow> (h4, Inl e)
                        | (h4, Inr comparison_result) \<Rightarrow> (h4, Inr ())))))"

text \<open>Reading a trace.\<close>

fun is_fetch :: "event \<Rightarrow> bool" where
  "is_fetch (Fetch conn_params query r) = True"
| "is_fetch ev = False"

fun is_plugin :: "event \<Rightarrow> bool" where
  "is_plugin (Import name r) = True"
| "is_plugin (Call name args r) = True"
| "is_plugin ev = False"

fun is_push :: "event \<Rightarrow> bool" where
  "is_push (Push request r) = True"
| "is_push ev = False"


fun is_comparator_call :: "event \<Rightarrow> bool" where
  "is_comparator_call (Call name (Keywords kw) r) = True"
| "is_comparator_call ev = False"

fun fetched :: "event \<Rightarrow> rowset list" where
  "fetched (Fetch conn_params query (Inr rows)) = [rows]"
| "fetched ev = []"

fun is_failed_fetch :: "event \<Rightarrow> bool" where
  "is_failed_fetch (Fetch conn_params query (Inl e)) = True"
| "is_failed_fetch ev = False"


text \<open>
  The events of one \<open>run_module\<close>: a failed import, an import of a module without
  \<^verbatim>\<open>run\<close>, or an import followed by the call.
\<close>

definition plugin_events :: "string \<Rightarrow> callargs \<Rightarrow> event list \<Rightarrow> error + pyval \<Rightarrow> bool" where
  "plugin_events name args evs r =
     ((\<exists>e. evs = [Import name (Some e)] \<and> r = Inl e)
      \<or> (evs = [Import name None] \<and> r = Inl (AttributeError ''run''))
      \<or> evs = [Import name None, Call name args r])"




section \<open>An example configuration\<close>

text \<open>
  After the example of the specification: the metric \<^verbatim>\<open>Row_Count\<close> with the action
  \<^verbatim>\<open>sum_counts\<close> over two sources that return 5 and 7, and the comparator
  \<^verbatim>\<open>greater_than\<close> with the threshold 10. It is the concrete input of the witnesses.
\<close>

definition first_count :: "row \<Rightarrow> int" where
  "first_count r = (case r of PInt n # rest \<Rightarrow> n | _ \<Rightarrow> 0)"

definition sum_counts :: "event list \<Rightarrow> callargs \<Rightarrow> error + pyval" where
  "sum_counts h args =
     (case args of
        Positional vs \<Rightarrow> Inr (PInt (sum_list (map first_count (concat vs))))
      | Keywords kw \<Rightarrow> Inl (ExternalError ''TypeError''))"

definition greater_than :: "event list \<Rightarrow> callargs \<Rightarrow> error + pyval" where
  "greater_than h args =
     (case args of
        Positional vs \<Rightarrow> Inl (ExternalError ''TypeError'')
      | Keywords kw \<Rightarrow>
          (case (map_of kw ''metric'', map_of kw ''threshold'') of
             (Some (PInt m), Some (PInt t)) \<Rightarrow> Inr (PBool (m > t))
           | _ \<Rightarrow> Inl (ExternalError ''TypeError'')))"

definition example_table :: "metric_description pydict" where
  "example_table =
     [(''Row_Count'', \<lparr> md_action = ''sum_counts'', md_comparator = ''greater_than'',
                        md_prometheus_documentation = ''Number of rows'' \<rparr>)]"

definition example_env :: env where
  "example_env =
     \<lparr> root_folder = ''dq'',
       value_protocol = (\<lambda>kwargs obj acc conv spec. Inl ValueError),
       read_file = (\<lambda>h path.
         if path = ''metrics/row_count/metric.sql''
         then Inr ''SELECT count(*) FROM {table} WHERE day = {day}''
         else Inl (FileNotFoundError path)),
       pg_fetchall = (\<lambda>h conn_params query.
         if map_of conn_params ''host'' = Some (PStr ''db1'') then Inr [[PInt 5]]
         else if map_of conn_params ''host'' = Some (PStr ''db2'') then Inr [[PInt 7]]
         else Inl (ExternalError ''OperationalError'')),
       import_module = (\<lambda>h name.
         if name = ''dq.actions.sum_counts.action'' then Inr \<lparr> run = Some sum_counts \<rparr>
         else if name = ''dq.comparators.greater_than.comparator''
         then Inr \<lparr> run = Some greater_than \<rparr>
         else Inl (ModuleNotFoundError name)),
       push_to_gateway = (\<lambda>h request. None) \<rparr>"

definition example_sources :: "(pyval pydict) pydict" where
  "example_sources =
     [(''orders'', [(''connection'', PStr ''warehouse''), (''table'', PStr ''orders'')]),
      (''copy'', [(''connection'', PStr ''replica''), (''table'', PStr ''orders_copy''),
                  (''day'', PStr ''2024-01-02'')])]"

definition example_checker :: checker where
  "example_checker =
     \<lparr> metric_name = ''Row_Count'',
       prometheus_metric_prefix = ''dq_checks'',
       prometheus_metric_name = ''row_count'',
       sources = example_sources,
       attributes = [(''day'', PStr ''2024-01-01''), (''threshold'', PInt 10)],
       connections = [(''warehouse'', [(''host'', PStr ''db1'')]),
                      (''replica'', [(''host'', PStr ''db2'')])],
       prometheus_gateway = Some ''gateway:9091'',
       action = ''sum_counts'',
       comparator = ''greater_than'',
       prometheus_documentation = ''Number of rows'' \<rparr>"

text \<open>The same world with a replica that refuses the connection.\<close>

definition replica_down :: env where
  "replica_down =
     example_env \<lparr> pg_fetchall := (\<lambda>h conn_params query.
       if map_of conn_params ''host'' = Some (PStr ''db1'') then Inr [[PInt 5]]
       else Inl (ExternalError ''OperationalError'')) \<rparr>"




text \<open>The queries of the example, in the order of its sources.\<close>

definition example_queries :: "event list" where
  "example_queries =
     [ReadFile ''metrics/row_count/metric.sql''
        (Inr ''SELECT count(*) FROM {table} WHERE day = {day}''),
      Fetch [(''host'', PStr ''db1'')]
        ''SELECT count(*) FROM orders WHERE day = 2024-01-01'' (Inr [[PInt 5]]),
      ReadFile ''metrics/row_count/metric.sql''
        (Inr ''SELECT count(*) FROM {table} WHERE day = {day}''),
      Fetch [(''host'', PStr ''db2'')]
        ''SELECT count(*) FROM orders_copy WHERE day = 2024-01-02'' (Inr [[PInt 7]])]"

section \<open>Dictionary lemmas\<close>

lemma map_of_dict_set: "map_of (dict_set k v d) = (map_of d)(k \<mapsto> v)"
  by (induction d) (auto simp: fun_eq_iff)

lemma keys_dict_set: "keys (dict_set k v d) = insert k (keys d)"
  unfolding keys_def by (induction d) force+

lemma is_dict_dict_set: "is_dict d \<Longrightarrow> is_dict (dict_set k v d)"
proof (induction d)
  case Nil
  show ?case by (simp add: is_dict_def)
next
  case (Cons p d)
  obtain k' v' where p: "p = (k', v')" by (cases p)
  have "fst ` set (dict_set k v d) = insert k (fst ` set d)"
    using keys_dict_set [of k v d] by (simp add: keys_def)
  with Cons show ?case by (auto simp: is_dict_def p)
qed

lemma map_of_dict_or:
  "is_dict b \<Longrightarrow> map_of (dict_or a b) = map_of a ++ map_of b"
  unfolding dict_or_def
proof (induction b arbitrary: a)
  case Nil
  show ?case by simp
next
  case (Cons p b)
  obtain k v where p: "p = (k, v)" by (cases p)
  from Cons.prems have d: "is_dict b" and k: "map_of b k = None"
    by (auto simp: is_dict_def p map_of_eq_None_iff)
  have "map_of (fold (\<lambda>(k, v). dict_set k v) (p # b) a)
        = map_of (dict_set k v a) ++ map_of b"
    using Cons.IH [OF d, of "dict_set k v a"] by (simp add: p)
  also have "\<dots> = map_of a ++ map_of (p # b)"
    using k by (auto simp: p map_of_dict_set fun_eq_iff map_add_def split: option.splits)
  finally show ?case .
qed

lemma is_dict_dict_or: "is_dict a \<Longrightarrow> is_dict (dict_or a b)"
  unfolding dict_or_def
  by (induction b arbitrary: a) (auto simp: is_dict_dict_set)

lemma keys_dict_or: "keys (dict_or a b) = keys a \<union> keys b"
  unfolding dict_or_def
proof (induction b arbitrary: a)
  case Nil
  show ?case by (simp add: keys_def)
next
  case (Cons p b)
  obtain k v where p: "p = (k, v)" by (cases p)
  have "keys (fold (\<lambda>(k, v). dict_set k v) (p # b) a) = keys (dict_set k v a) \<union> keys b"
    using Cons.IH [of "dict_set k v a"] by (simp add: p)
  also have "\<dots> = keys a \<union> keys (p # b)"
    unfolding keys_dict_set by (simp add: p keys_def)
  finally show ?case .
qed

lemma keys_dom: "keys d = dom (map_of d)"
  by (simp add: keys_def dom_map_of_conv_image_fst)

section \<open>Rendering plain templates\<close>














section \<open>The shape of a run\<close>

lemma query_source_cases:
  assumes "query_source env c h sp = (h', r)"
  shows "(\<exists>t e. h' = h @ [ReadFile (sql_path c) t] \<and> r = Inl e)
       \<or> (\<exists>t q cp. h' = h @ [ReadFile (sql_path c) (Inr t), Fetch cp q r]
             \<and> lookup_connection c sp = Inr cp
             \<and> format_kw (value_protocol env) t (dict_or (attributes c) sp) = Inr q)"
  using assms
  by (auto simp: query_source_def read_sql_file_def fetchall_def Let_def
           split: sum.splits prod.splits)

lemma query_sources_trace:
  assumes "query_sources env c h srcs acc = (h', r)"
  shows "\<exists>new. h' = h @ new
      \<and> (\<forall>ev \<in> set new. \<not> is_plugin ev \<and> \<not> is_push ev)
      \<and> length (filter is_fetch new) \<le> length srcs
      \<and> (\<forall>cp q e. Fetch cp q (Inl e) \<in> set new \<longrightarrow> r = Inl e \<and> last new = Fetch cp q (Inl e))
      \<and> (\<forall>vals. r = Inr vals \<longrightarrow>
            vals = acc @ concat (map fetched new)
            \<and> length vals = length acc + length srcs)"
  using assms
proof (induction srcs arbitrary: h acc)
  case Nil
  then show ?case by auto
next
  case (Cons src srcs)
  obtain s sp where src: "src = (s, sp)" by (cases src)
  obtain h1 r1 where q: "query_source env c h sp = (h1, r1)" by (cases "query_source env c h sp")
  show ?case
  proof (cases r1)
    case (Inl e)
    with Cons.prems q src have res: "h' = h1" "r = Inl e" by auto
    from query_source_cases [OF q] Inl res show ?thesis
      by auto
  next
    case (Inr rows)
    with Cons.prems q src have rec: "query_sources env c h1 srcs (acc @ [rows]) = (h', r)" by auto
    from Cons.IH [OF rec] obtain new where new: "h' = h1 @ new"
      "\<forall>ev \<in> set new. \<not> is_plugin ev \<and> \<not> is_push ev"
      "length (filter is_fetch new) \<le> length srcs"
      "\<forall>cp q e. Fetch cp q (Inl e) \<in> set new \<longrightarrow> r = Inl e \<and> last new = Fetch cp q (Inl e)"
      "\<forall>vals. r = Inr vals \<longrightarrow>
            vals = (acc @ [rows]) @ concat (map fetched new)
            \<and> length vals = length (acc @ [rows]) + length srcs"
      by blast
    from query_source_cases [OF q] Inr obtain t qq cp where
      h1: "h1 = h @ [ReadFile (sql_path c) (Inr t), Fetch cp qq (Inr rows)]"
      by auto
    show ?thesis
      apply (rule exI [of _ "[ReadFile (sql_path c) (Inr t), Fetch cp qq (Inr rows)] @ new"])
      using new h1 src by auto
  qed
qed



lemma run_module_cases:
  assumes "run_module env h name args = (h', r)"
  shows "(\<exists>e. h' = h @ [Import name (Some e)] \<and> r = Inl e \<and> import_module env h name = Inl e)
       \<or> (\<exists>m. h' = h @ [Import name None] \<and> r = Inl (AttributeError ''run'')
              \<and> import_module env h name = Inr m \<and> run m = None)
       \<or> (\<exists>m f. h' = h @ [Import name None, Call name args r]
              \<and> import_module env h name = Inr m \<and> run m = Some f
              \<and> r = f (h @ [Import name None]) args)"
  using assms
  by (auto simp: run_module_def Let_def split: sum.splits option.splits)

lemma send_metric_cases:
  assumes "(if truthy (prometheus_gateway c) then send_metric_to_prometheus env c h v else (h, None)) = (h', r)"
  shows "(\<not> truthy (prometheus_gateway c) \<and> h' = h \<and> r = None)
       \<or> (truthy (prometheus_gateway c) \<and> h' = h @ [Push (gauge_request c v) r]
            \<and> r = push_to_gateway env h (gauge_request c v))"
  using assms
  by (auto simp: send_metric_to_prometheus_def Let_def split: if_splits)

lemma check_cases:
  assumes q: "query_sources env c [] (sources c) [] = (h1, r1)"
  shows "(\<exists>e. r1 = Inl e \<and> check env c = (h1, Inl e))
    \<or> (\<exists>vals h2 e. r1 = Inr vals
          \<and> run_module env h1 (action_module env c) (Positional vals) = (h2, Inl e)
          \<and> check env c = (h2, Inl e))
    \<or> (\<exists>vals h2 mv h3 e. r1 = Inr vals
          \<and> run_module env h1 (action_module env c) (Positional vals) = (h2, Inr mv)
          \<and> truthy (prometheus_gateway c)
          \<and> h3 = h2 @ [Push (gauge_request c mv) (Some e)]
          \<and> check env c = (h3, Inl e))
    \<or> (\<exists>vals h2 mv h3 h4 r. r1 = Inr vals
          \<and> run_module env h1 (action_module env c) (Positional vals) = (h2, Inr mv)
          \<and> (if truthy (prometheus_gateway c) then h3 = h2 @ [Push (gauge_request c mv) None] else h3 = h2)
          \<and> run_module env h3 (comparator_module env c)
               (Keywords (dict_or (attributes c) [(''metric'', mv)])) = (h4, r)
          \<and> check env c = (h4, case r of Inl e \<Rightarrow> Inl e | Inr x \<Rightarrow> Inr ()))"
proof (cases r1)
  case (Inl e)
  with q show ?thesis by (simp add: check_def)
next
  case (Inr vals)
  obtain h2 r2 where a: "run_module env h1 (action_module env c) (Positional vals) = (h2, r2)"
    by (cases "run_module env h1 (action_module env c) (Positional vals)")
  show ?thesis
  proof (cases r2)
    case (Inl e)
    with q Inr a show ?thesis by (simp add: check_def)
  next
    case mv: (Inr mv)
    obtain h3 r3 where s: "(if truthy (prometheus_gateway c) then send_metric_to_prometheus env c h2 mv else (h2, None)) = (h3, r3)"
      by (cases "(if truthy (prometheus_gateway c) then send_metric_to_prometheus env c h2 mv else (h2, None))")
    show ?thesis
    proof (cases r3)
      case (Some e)
      with send_metric_cases [OF s] have "truthy (prometheus_gateway c)" "h3 = h2 @ [Push (gauge_request c mv) (Some e)]"
        by auto
      moreover have "check env c = (h3, Inl e)"
        using q Inr a mv s Some by (simp add: check_def)
      ultimately show ?thesis using Inr a mv by blast
    next
      case None
      obtain h4 r where k: "run_module env h3 (comparator_module env c)
               (Keywords (dict_or (attributes c) [(''metric'', mv)])) = (h4, r)"
        by (cases "run_module env h3 (comparator_module env c)
               (Keywords (dict_or (attributes c) [(''metric'', mv)]))")
      have "check env c = (h4, case r of Inl e \<Rightarrow> Inl e | Inr x \<Rightarrow> Inr ())"
        using q Inr a mv s None k by (simp add: check_def Let_def split: sum.splits)
      moreover from send_metric_cases [OF s] None
      have "if truthy (prometheus_gateway c) then h3 = h2 @ [Push (gauge_request c mv) None] else h3 = h2"
        by auto
      ultimately show ?thesis using Inr a mv k by blast
    qed
  qed
qed

lemma run_module_events:
  assumes "run_module env h name args = (h', r)"
  shows "\<exists>evs. h' = h @ evs \<and> plugin_events name args evs r"
  using run_module_cases [OF assms] by (auto simp: plugin_events_def)

lemma plugin_events_Inr:
  "plugin_events name args evs (Inr v) \<longleftrightarrow> evs = [Import name None, Call name args (Inr v)]"
  by (auto simp: plugin_events_def)

lemma check_shape:
  assumes q: "query_sources env c [] (sources c) [] = (h1, r1)"
  shows "(\<exists>e. r1 = Inl e \<and> check env c = (h1, Inl e))
    \<or> (\<exists>vals ea e. r1 = Inr vals
          \<and> plugin_events (action_module env c) (Positional vals) ea (Inl e)
          \<and> check env c = (h1 @ ea, Inl e))
    \<or> (\<exists>vals mv e. r1 = Inr vals
          \<and> truthy (prometheus_gateway c)
          \<and> check env c =
              (h1 @ [Import (action_module env c) None,
                     Call (action_module env c) (Positional vals) (Inr mv),
                     Push (gauge_request c mv) (Some e)], Inl e))
    \<or> (\<exists>vals mv ek r. r1 = Inr vals
          \<and> plugin_events (comparator_module env c)
               (Keywords (dict_or (attributes c) [(''metric'', mv)])) ek r
          \<and> check env c =
              (h1 @ [Import (action_module env c) None,
                     Call (action_module env c) (Positional vals) (Inr mv)]
                  @ (if truthy (prometheus_gateway c) then [Push (gauge_request c mv) None] else [])
                  @ ek,
               case r of Inl e \<Rightarrow> Inl e | Inr x \<Rightarrow> Inr ()))"
  using check_cases [OF q]
proof (elim disjE exE conjE)
  fix e assume "r1 = Inl e" "check env c = (h1, Inl e)"
  then show ?thesis by blast
next
  fix vals h2 e
  assume a: "r1 = Inr vals"
    "run_module env h1 (action_module env c) (Positional vals) = (h2, Inl e)"
    "check env c = (h2, Inl e)"
  from run_module_events [OF a(2)] a(1,3) show ?thesis by blast
next
  fix vals h2 mv h3 e
  assume a: "r1 = Inr vals"
    "run_module env h1 (action_module env c) (Positional vals) = (h2, Inr mv)"
    "truthy (prometheus_gateway c)"
    "h3 = h2 @ [Push (gauge_request c mv) (Some e)]"
    "check env c = (h3, Inl e)"
  from run_module_events [OF a(2)]
  have "h2 = h1 @ [Import (action_module env c) None,
                   Call (action_module env c) (Positional vals) (Inr mv)]"
    by (auto simp: plugin_events_Inr)
  with a show ?thesis by auto
next
  fix vals h2 mv h3 h4 r
  assume a: "r1 = Inr vals"
    "run_module env h1 (action_module env c) (Positional vals) = (h2, Inr mv)"
    "if truthy (prometheus_gateway c) then h3 = h2 @ [Push (gauge_request c mv) None] else h3 = h2"
    "run_module env h3 (comparator_module env c)
       (Keywords (dict_or (attributes c) [(''metric'', mv)])) = (h4, r)"
    "check env c = (h4, case r of Inl e \<Rightarrow> Inl e | Inr x \<Rightarrow> Inr ())"
  from run_module_events [OF a(2)]
  have h2: "h2 = h1 @ [Import (action_module env c) None,
                   Call (action_module env c) (Positional vals) (Inr mv)]"
    by (auto simp: plugin_events_Inr)
  from a(3) have h3: "h3 = h2 @ (if truthy (prometheus_gateway c) then [Push (gauge_request c mv) None] else [])"
    by (auto split: if_splits)
  from run_module_events [OF a(4)] obtain ek where
    ek: "h4 = h3 @ ek" "plugin_events (comparator_module env c)
               (Keywords (dict_or (attributes c) [(''metric'', mv)])) ek r"
    by blast
  have "check env c =
              (h1 @ [Import (action_module env c) None,
                     Call (action_module env c) (Positional vals) (Inr mv)]
                  @ (if truthy (prometheus_gateway c) then [Push (gauge_request c mv) None] else [])
                  @ ek,
               case r of Inl e \<Rightarrow> Inl e | Inr x \<Rightarrow> Inr ())"
    using a(5) ek(1) h2 h3 by simp
  with a(1) ek(2) show ?thesis by blast
qed

lemma query_sources_failures:
  assumes "query_sources env c h srcs acc = (h', r)"
  shows "\<exists>new. h' = h @ new \<and> filter is_failed_fetch (butlast new) = []
           \<and> (\<forall>vals. r = Inr vals \<longrightarrow> filter is_failed_fetch new = [])"
  using assms
proof (induction srcs arbitrary: h acc)
  case Nil
  then show ?case by auto
next
  case (Cons src srcs)
  obtain s sp where src: "src = (s, sp)" by (cases src)
  obtain h1 r1 where q: "query_source env c h sp = (h1, r1)" by (cases "query_source env c h sp")
  show ?case
  proof (cases r1)
    case (Inl e)
    with Cons.prems q src have res: "h' = h1" "r = Inl e" by auto
    from query_source_cases [OF q] Inl res show ?thesis
      by auto
  next
    case (Inr rows)
    with Cons.prems q src have rec: "query_sources env c h1 srcs (acc @ [rows]) = (h', r)" by auto
    from Cons.IH [OF rec] obtain new where new: "h' = h1 @ new"
      "filter is_failed_fetch (butlast new) = []"
      "\<forall>vals. r = Inr vals \<longrightarrow> filter is_failed_fetch new = []"
      by blast
    from query_source_cases [OF q] Inr obtain t qq cp where
      h1: "h1 = h @ [ReadFile (sql_path c) (Inr t), Fetch cp qq (Inr rows)]"
      by auto
    show ?thesis
      apply (rule exI [of _ "[ReadFile (sql_path c) (Inr t), Fetch cp qq (Inr rows)] @ new"])
      using new h1 by (auto simp: butlast_append)
  qed
qed

lemma plugin_events_kinds:
  assumes "plugin_events name args evs r" "ev \<in> set evs"
  shows "is_plugin ev \<and> \<not> is_fetch ev \<and> \<not> is_push ev \<and> \<not> is_failed_fetch ev"
  using assms by (auto simp: plugin_events_def)

lemma dict_or_single: "dict_or d [(k, v)] = dict_set k v d"
  by (simp add: dict_or_def)


lemma check_push_request:
  assumes "Push req r \<in> set (fst (check env c))"
  shows "truthy (prometheus_gateway c) \<and> (\<exists>mv. req = gauge_request c mv)"
proof -
  obtain h1 r1 where q: "query_sources env c [] (sources c) [] = (h1, r1)"
    by (cases "query_sources env c [] (sources c) []")
  from query_sources_trace [OF q] have np: "Push req r \<notin> set h1" by auto
  from check_shape [OF q] show ?thesis
  proof (elim disjE exE conjE)
    fix e assume "check env c = (h1, Inl e)"
    with np assms show ?thesis by auto
  next
    fix vals ea e
    assume "plugin_events (action_module env c) (Positional vals) ea (Inl e)"
      "check env c = (h1 @ ea, Inl e)"
    with np assms show ?thesis by (auto simp: plugin_events_def)
  next
    fix vals mv e
    assume "truthy (prometheus_gateway c)"
      "check env c =
              (h1 @ [Import (action_module env c) None,
                     Call (action_module env c) (Positional vals) (Inr mv),
                     Push (gauge_request c mv) (Some e)], Inl e)"
    with np assms show ?thesis by auto
  next
    fix vals mv ek r'
    assume "plugin_events (comparator_module env c)
               (Keywords (dict_or (attributes c) [(''metric'', mv)])) ek r'"
      "check env c =
              (h1 @ [Import (action_module env c) None,
                     Call (action_module env c) (Positional vals) (Inr mv)]
                  @ (if truthy (prometheus_gateway c) then [Push (gauge_request c mv) None] else [])
                  @ ek,
               case r' of Inl e \<Rightarrow> Inl e | Inr x \<Rightarrow> Inr ())"
    with np assms show ?thesis by (auto simp: plugin_events_def split: if_splits)
  qed
qed

lemma lower_char_not_upper: "lower_char ch \<notin> set ''ABCDEFGHIJKLMNOPQRSTUVWXYZ''"
  by (auto simp: lower_char_def)

lemma lower_no_upper: "set (lower s) \<inter> set ''ABCDEFGHIJKLMNOPQRSTUVWXYZ'' = {}"
proof -
  have "x \<notin> set ''ABCDEFGHIJKLMNOPQRSTUVWXYZ''" if "x \<in> set (lower s)" for x
  proof -
    from that obtain ch where "x = lower_char ch" by (auto simp: lower_def)
    then show ?thesis using lower_char_not_upper [of ch] by simp
  qed
  then show ?thesis by blast
qed







lemma overflowing_leading_digits:
  "\<not> plain_name ''9999999999999999999x''
   \<and> format_kw p ''{9999999999999999999x}'' [(''9999999999999999999x'', PStr ''v'')]
       = Inl ValueError"
  by (simp add: plain_name_def is_keyword_def get_integer_def is_digit_def digit_value_def
        format_kw_def markup.simps emit_def parse_field_def render_field_def
        get_field_object_def arg_name_def)

section \<open>The example, evaluated\<close>

lemmas format_eval = format_kw_def markup.simps emit_def parse_field_def render_field_def
  get_field_object_def arg_name_def accessors_def is_keyword_def is_digit_def dict_get_def
  get_integer_def digit_value_def str_int_def str_nat.simps digit_char_def

lemmas check_eval = check_def query_source_def read_sql_file_def fetchall_def sql_path_def
  lookup_connection_def run_module_def send_metric_to_prometheus_def gauge_request_def
  truthy_def action_module_def comparator_module_def lower_def lower_char_def dict_or_def
  Let_def

lemma example_init:
  "init example_table ''Row_Count'' ''DQ_Checks'' example_sources
     [(''day'', PStr ''2024-01-01''), (''threshold'', PInt 10)]
     [(''warehouse'', [(''host'', PStr ''db1'')]), (''replica'', [(''host'', PStr ''db2'')])]
     (Some ''gateway:9091'') = Inr example_checker"
  by (simp add: init_def dict_get_def example_table_def example_checker_def lower_def
        lower_char_def)

lemma example_query_sources:
  "query_sources example_env example_checker [] (sources example_checker) []
     = (example_queries, Inr [[[PInt 5]], [[PInt 7]]])"
  by (simp add: example_env_def example_checker_def example_sources_def example_queries_def
        check_eval format_eval)

lemma example_check:
  "check example_env example_checker =
     (example_queries
      @ [Import ''dq.actions.sum_counts.action'' None,
         Call ''dq.actions.sum_counts.action'' (Positional [[[PInt 5]], [[PInt 7]]])
           (Inr (PInt 12)),
         Push (gauge_request example_checker (PInt 12)) None,
         Import ''dq.comparators.greater_than.comparator'' None,
         Call ''dq.comparators.greater_than.comparator''
           (Keywords [(''day'', PStr ''2024-01-01''), (''threshold'', PInt 10),
                      (''metric'', PInt 12)])
           (Inr (PBool True))],
      Inr ())"
  unfolding check_def example_query_sources
  by (simp add: example_env_def example_checker_def run_module_def
        send_metric_to_prometheus_def truthy_def action_module_def comparator_module_def
        dict_or_def sum_counts_def first_count_def greater_than_def Let_def)

section \<open>The claims\<close>

text \<open>
  C1, as the code has it. The comparator is called with the global attributes and the
  metric value under the key \<^verbatim>\<open>metric\<close> (line 114); the attributes of the sources are
  not among its arguments. Every call with keyword arguments in a run is the call of
  the comparator module, and its arguments are the global attributes with \<^verbatim>\<open>metric\<close>
  set to the value that the action returned.
\<close>

theorem comparator_receives_global_attributes:
  assumes "Call name (Keywords kw) r \<in> set (fst (check env c))"
  shows "name = comparator_module env c
       \<and> (\<exists>vals mv. Call (action_module env c) (Positional vals) (Inr mv) \<in> set (fst (check env c))
             \<and> kw = dict_set ''metric'' mv (attributes c)
             \<and> map_of kw = (map_of (attributes c))(''metric'' \<mapsto> mv)
             \<and> keys kw = insert ''metric'' (keys (attributes c)))"
proof -
  obtain h1 r1 where q: "query_sources env c [] (sources c) [] = (h1, r1)"
    by (cases "query_sources env c [] (sources c) []")
  from query_sources_trace [OF q] have tr: "\<forall>ev \<in> set h1. \<not> is_plugin ev"
    by auto
  then have nc: "Call name (Keywords kw) r \<notin> set h1" by auto
  from check_shape [OF q] show ?thesis
  proof (elim disjE exE conjE)
    fix e' assume a: "r1 = Inl e'" "check env c = (h1, Inl e')"
    with assms nc show ?thesis by auto
  next
    fix vals ea e'
    assume a: "r1 = Inr vals"
      "plugin_events (action_module env c) (Positional vals) ea (Inl e')"
      "check env c = (h1 @ ea, Inl e')"
    with assms nc show ?thesis by (auto simp: plugin_events_def)
  next
    fix vals mv e'
    assume a: "r1 = Inr vals"
      "check env c =
              (h1 @ [Import (action_module env c) None,
                     Call (action_module env c) (Positional vals) (Inr mv),
                     Push (gauge_request c mv) (Some e')], Inl e')"
    with assms nc show ?thesis by auto
  next
    fix vals mv ek r'
    assume a: "r1 = Inr vals"
      "plugin_events (comparator_module env c)
               (Keywords (dict_or (attributes c) [(''metric'', mv)])) ek r'"
      "check env c =
              (h1 @ [Import (action_module env c) None,
                     Call (action_module env c) (Positional vals) (Inr mv)]
                  @ (if truthy (prometheus_gateway c) then [Push (gauge_request c mv) None] else [])
                  @ ek,
               case r' of Inl e \<Rightarrow> Inl e | Inr x \<Rightarrow> Inr ())"
    from assms nc a(3) have "Call name (Keywords kw) r \<in> set ek"
      by (auto split: if_splits)
    with a(2) have "name = comparator_module env c" "kw = dict_set ''metric'' mv (attributes c)"
      by (auto simp: plugin_events_def dict_or_single)
    moreover have "Call (action_module env c) (Positional vals) (Inr mv) \<in> set (fst (check env c))"
      using a(3) by simp
    ultimately show ?thesis
      by (auto simp: map_of_dict_set keys_dict_set)
  qed
qed

theorem comparator_receives_global_attributes_witness:
  "Call ''dq.comparators.greater_than.comparator''
      (Keywords [(''day'', PStr ''2024-01-01''), (''threshold'', PInt 10), (''metric'', PInt 12)])
      (Inr (PBool True))
     \<in> set (fst (check example_env example_checker))
   \<and> ''dq.comparators.greater_than.comparator'' = comparator_module example_env example_checker
   \<and> (\<exists>vals mv.
         Call (action_module example_env example_checker) (Positional vals) (Inr mv)
           \<in> set (fst (check example_env example_checker))
         \<and> [(''day'', PStr ''2024-01-01''), (''threshold'', PInt 10), (''metric'', PInt 12)]
             = dict_set ''metric'' mv (attributes example_checker)
         \<and> map_of [(''day'', PStr ''2024-01-01''), (''threshold'', PInt 10), (''metric'', PInt 12)]
             = (map_of (attributes example_checker))(''metric'' \<mapsto> mv)
         \<and> keys [(''day'', PStr ''2024-01-01''), (''threshold'', PInt 10), (''metric'', PInt 12)]
             = insert ''metric'' (keys (attributes example_checker)))"
proof -
  have a: "Call ''dq.comparators.greater_than.comparator''
      (Keywords [(''day'', PStr ''2024-01-01''), (''threshold'', PInt 10), (''metric'', PInt 12)])
      (Inr (PBool True))
     \<in> set (fst (check example_env example_checker))"
    by (simp add: example_check)
  from comparator_receives_global_attributes [OF a] a show ?thesis
    by blast
qed

text \<open>
  C1, as the claim states it, fails: in the example the first source has the attribute
  \<^verbatim>\<open>table\<close>, the merged attributes of either source with the metric value differ from
  the arguments of the comparator, and \<^verbatim>\<open>table\<close> is not among these arguments.
\<close>

theorem comparator_merged_attributes_counterexample:
  "Call ''dq.comparators.greater_than.comparator''
      (Keywords [(''day'', PStr ''2024-01-01''), (''threshold'', PInt 10), (''metric'', PInt 12)])
      (Inr (PBool True))
     \<in> set (fst (check example_env example_checker))
   \<and> filter is_comparator_call (fst (check example_env example_checker))
       = [Call ''dq.comparators.greater_than.comparator''
            (Keywords [(''day'', PStr ''2024-01-01''), (''threshold'', PInt 10),
                       (''metric'', PInt 12)])
            (Inr (PBool True))]
   \<and> dict_or (dict_or (attributes example_checker) (snd (sources example_checker ! 0)))
         [(''metric'', PInt 12)]
       = [(''day'', PStr ''2024-01-01''), (''threshold'', PInt 10),
          (''connection'', PStr ''warehouse''), (''table'', PStr ''orders''),
          (''metric'', PInt 12)]
   \<and> dict_or (dict_or (attributes example_checker) (snd (sources example_checker ! 1)))
         [(''metric'', PInt 12)]
       = [(''day'', PStr ''2024-01-02''), (''threshold'', PInt 10),
          (''connection'', PStr ''replica''), (''table'', PStr ''orders_copy''),
          (''metric'', PInt 12)]
   \<and> ''table'' \<notin> keys [(''day'', PStr ''2024-01-01''), (''threshold'', PInt 10),
                          (''metric'', PInt 12)]
   \<and> ''table'' \<in> keys (dict_or (dict_or (attributes example_checker)
                                    (snd (sources example_checker ! 0)))
                           [(''metric'', PInt 12)])
   \<and> ''table'' \<in> keys (dict_or (dict_or (attributes example_checker)
                                    (snd (sources example_checker ! 1)))
                           [(''metric'', PInt 12)])"
proof -
  have s: "sources example_checker = example_sources"
    "attributes example_checker = [(''day'', PStr ''2024-01-01''), (''threshold'', PInt 10)]"
    by (simp_all add: example_checker_def)
  show ?thesis
    unfolding example_check s
    by (simp add: example_queries_def example_sources_def dict_or_def keys_def)
qed

text \<open>
  C2. The attributes that render the query of a source are the global attributes
  updated with the attributes of the source: they have every key of both, and a key of
  the source has the value that the source gives it.
\<close>

theorem merged_attributes_source_wins:
  assumes "is_dict source_params"
  shows "keys (dict_or (attributes c) source_params) = keys (attributes c) \<union> keys source_params
       \<and> (\<forall>k \<in> keys source_params.
            map_of (dict_or (attributes c) source_params) k = map_of source_params k)"
proof -
  have "map_of (dict_or (attributes c) source_params) k = map_of source_params k"
    if "k \<in> keys source_params" for k
  proof -
    from that obtain v where "map_of source_params k = Some v"
      by (auto simp: keys_dom)
    then show ?thesis
      by (simp add: map_of_dict_or [OF assms] map_add_def)
  qed
  then show ?thesis by (simp add: keys_dict_or)
qed

theorem merged_attributes_source_wins_witness:
  "is_dict [(''connection'', PStr ''replica''), (''table'', PStr ''orders_copy''),
            (''day'', PStr ''2024-01-02'')]
   \<and> keys (dict_or (attributes example_checker)
            [(''connection'', PStr ''replica''), (''table'', PStr ''orders_copy''),
             (''day'', PStr ''2024-01-02'')])
       = keys (attributes example_checker)
         \<union> keys [(''connection'', PStr ''replica''), (''table'', PStr ''orders_copy''),
                   (''day'', PStr ''2024-01-02'')]
   \<and> map_of (dict_or (attributes example_checker)
            [(''connection'', PStr ''replica''), (''table'', PStr ''orders_copy''),
             (''day'', PStr ''2024-01-02'')]) ''day'' = Some (PStr ''2024-01-02'')"
proof -
  let ?sp = "[(''connection'', PStr ''replica''), (''table'', PStr ''orders_copy''),
              (''day'', PStr ''2024-01-02'')]"
  have d: "is_dict ?sp" by (simp add: is_dict_def)
  have k: "''day'' \<in> keys ?sp" by (simp add: keys_def)
  from merged_attributes_source_wins [OF d, of example_checker] k d show ?thesis
    by simp
qed







text \<open>
  C5. When a query of some source fails, \<open>check\<close> raises that error; the failed query
  is the last event of the run and the only failed one, so no later source is queried
  and nothing is retried; no plugin is imported or called and nothing is pushed; and
  there are never more queries than sources.
\<close>

theorem query_failure_aborts:
  assumes "Fetch conn_params query (Inl e) \<in> set (fst (check env c))"
  shows "snd (check env c) = Inl e
       \<and> last (fst (check env c)) = Fetch conn_params query (Inl e)
       \<and> filter is_failed_fetch (butlast (fst (check env c))) = []
       \<and> (\<forall>ev \<in> set (fst (check env c)). \<not> is_plugin ev \<and> \<not> is_push ev)
       \<and> length (filter is_fetch (fst (check env c))) \<le> length (sources c)"
proof -
  obtain h1 r1 where q: "query_sources env c [] (sources c) [] = (h1, r1)"
    by (cases "query_sources env c [] (sources c) []")
  from query_sources_trace [OF q] have tr:
    "\<forall>ev \<in> set h1. \<not> is_plugin ev \<and> \<not> is_push ev"
    "length (filter is_fetch h1) \<le> length (sources c)"
    "\<forall>cp q e. Fetch cp q (Inl e) \<in> set h1 \<longrightarrow> r1 = Inl e \<and> last h1 = Fetch cp q (Inl e)"
    by auto
  from query_sources_failures [OF q] have nf: "filter is_failed_fetch (butlast h1) = []"
    by auto
  have ok: "Fetch conn_params query (Inl e) \<notin> set h1" if "r1 = Inr vals" for vals
    using tr(3) that by auto
  from check_shape [OF q] show ?thesis
  proof (elim disjE exE conjE)
    fix e' assume a: "r1 = Inl e'" "check env c = (h1, Inl e')"
    with assms tr nf show ?thesis by auto
  next
    fix vals ea e'
    assume a: "r1 = Inr vals"
      "plugin_events (action_module env c) (Positional vals) ea (Inl e')"
      "check env c = (h1 @ ea, Inl e')"
    with assms ok [OF a(1)] have False by (auto simp: plugin_events_def)
    then show ?thesis ..
  next
    fix vals mv e'
    assume a: "r1 = Inr vals"
      "check env c =
              (h1 @ [Import (action_module env c) None,
                     Call (action_module env c) (Positional vals) (Inr mv),
                     Push (gauge_request c mv) (Some e')], Inl e')"
    with assms ok [OF a(1)] have False by auto
    then show ?thesis ..
  next
    fix vals mv ek r
    assume a: "r1 = Inr vals"
      "plugin_events (comparator_module env c)
               (Keywords (dict_or (attributes c) [(''metric'', mv)])) ek r"
      "check env c =
              (h1 @ [Import (action_module env c) None,
                     Call (action_module env c) (Positional vals) (Inr mv)]
                  @ (if truthy (prometheus_gateway c) then [Push (gauge_request c mv) None] else [])
                  @ ek,
               case r of Inl e \<Rightarrow> Inl e | Inr x \<Rightarrow> Inr ())"
    with assms ok [OF a(1)] have False by (auto simp: plugin_events_def split: if_splits)
    then show ?thesis ..
  qed
qed

theorem query_failure_aborts_witness:
  "Fetch [(''host'', PStr ''db2'')] ''SELECT count(*) FROM orders_copy WHERE day = 2024-01-02''
      (Inl (ExternalError ''OperationalError''))
     \<in> set (fst (check replica_down example_checker))
   \<and> snd (check replica_down example_checker) = Inl (ExternalError ''OperationalError'')
   \<and> last (fst (check replica_down example_checker))
       = Fetch [(''host'', PStr ''db2'')]
           ''SELECT count(*) FROM orders_copy WHERE day = 2024-01-02''
           (Inl (ExternalError ''OperationalError''))
   \<and> filter is_failed_fetch (butlast (fst (check replica_down example_checker))) = []
   \<and> filter is_plugin (fst (check replica_down example_checker)) = []
   \<and> filter is_push (fst (check replica_down example_checker)) = []
   \<and> length (filter is_fetch (fst (check replica_down example_checker)))
       \<le> length (sources example_checker)"
proof -
  have a: "Fetch [(''host'', PStr ''db2'')]
      ''SELECT count(*) FROM orders_copy WHERE day = 2024-01-02''
      (Inl (ExternalError ''OperationalError''))
     \<in> set (fst (check replica_down example_checker))"
    by (simp add: replica_down_def example_env_def example_checker_def example_sources_def
          check_eval format_eval)
  from query_failure_aborts [OF a] a show ?thesis
    by (simp add: filter_empty_conv)
qed

text \<open>
  C6. The constructor fails exactly when the metric name is not a key of the metric
  definition table, with the \<open>KeyError\<close> of that name; when it succeeds, the action,
  the comparator and the documentation of the checker are those of the table's entry.
\<close>

theorem init_resolves_metric:
  "((\<exists>e. init table name prefix srcs attrs conns gateway = Inl e) \<longleftrightarrow> name \<notin> keys table)
   \<and> (name \<notin> keys table \<longrightarrow>
        init table name prefix srcs attrs conns gateway = Inl (KeyError (PStr name)))
   \<and> (\<forall>c. init table name prefix srcs attrs conns gateway = Inr c \<longrightarrow>
        (\<exists>d. map_of table name = Some d
           \<and> action c = md_action d
           \<and> comparator c = md_comparator d
           \<and> prometheus_documentation c = md_prometheus_documentation d))"
  by (auto simp: init_def dict_get_def keys_dom split: option.splits)

theorem init_resolves_metric_witness:
  "''Row_Total'' \<notin> keys example_table
   \<and> init example_table ''Row_Total'' ''DQ_Checks'' example_sources [] [] None
       = Inl (KeyError (PStr ''Row_Total''))
   \<and> init example_table ''Row_Count'' ''DQ_Checks'' example_sources
         [(''day'', PStr ''2024-01-01''), (''threshold'', PInt 10)]
         [(''warehouse'', [(''host'', PStr ''db1'')]), (''replica'', [(''host'', PStr ''db2'')])]
         (Some ''gateway:9091'') = Inr example_checker
   \<and> (\<exists>d. map_of example_table ''Row_Count'' = Some d
          \<and> action example_checker = md_action d
          \<and> comparator example_checker = md_comparator d
          \<and> prometheus_documentation example_checker = md_prometheus_documentation d)"
proof -
  have a: "''Row_Total'' \<notin> keys example_table"
    by (simp add: keys_def example_table_def)
  have b: "init example_table ''Row_Count'' ''DQ_Checks'' example_sources
         [(''day'', PStr ''2024-01-01''), (''threshold'', PInt 10)]
         [(''warehouse'', [(''host'', PStr ''db1'')]), (''replica'', [(''host'', PStr ''db2'')])]
         (Some ''gateway:9091'') = Inr example_checker"
    by (simp add: init_def dict_get_def example_table_def example_checker_def lower_def
          lower_char_def)
  from init_resolves_metric [of example_table "''Row_Total''" "''DQ_Checks''" example_sources
      "[]" "[]" None] a
  have "init example_table ''Row_Total'' ''DQ_Checks'' example_sources [] [] None
       = Inl (KeyError (PStr ''Row_Total''))"
    by blast
  moreover from init_resolves_metric [of example_table "''Row_Count''" "''DQ_Checks''"
      example_sources "[(''day'', PStr ''2024-01-01''), (''threshold'', PInt 10)]"
      "[(''warehouse'', [(''host'', PStr ''db1'')]), (''replica'', [(''host'', PStr ''db2'')])]"
      "Some ''gateway:9091''"] b
  have "\<exists>d. map_of example_table ''Row_Count'' = Some d
          \<and> action example_checker = md_action d
          \<and> comparator example_checker = md_comparator d
          \<and> prometheus_documentation example_checker = md_prometheus_documentation d"
    by blast
  ultimately show ?thesis using a b by blast
qed






text \<open>
  C8. With no gateway address the run pushes nothing; whenever a push is in the trace of
  a run, the checker has a gateway address, it is not empty, and the push goes to it.
\<close>

theorem no_push_without_gateway:
  "(prometheus_gateway c = None \<longrightarrow> filter is_push (fst (check env c)) = [])
   \<and> (\<forall>req r. Push req r \<in> set (fst (check env c)) \<longrightarrow>
         (\<exists>g. prometheus_gateway c = Some g \<and> g \<noteq> [] \<and> push_gateway req = Some g))"
proof -
  obtain h1 r1 where q: "query_sources env c [] (sources c) [] = (h1, r1)"
    by (cases "query_sources env c [] (sources c) []")
  from query_sources_trace [OF q] have np: "\<forall>ev \<in> set h1. \<not> is_push ev" by auto
  then have f: "filter is_push h1 = []" by (simp add: filter_empty_conv)
  have g: "\<exists>g. prometheus_gateway c = Some g \<and> g \<noteq> [] \<and> push_gateway (gauge_request c mv) = Some g"
    if "truthy (prometheus_gateway c)" for mv
    using that by (auto simp: truthy_def gauge_request_def split: option.splits)
  have t: "prometheus_gateway c = None \<Longrightarrow> \<not> truthy (prometheus_gateway c)"
    by (simp add: truthy_def)
  from check_shape [OF q] show ?thesis
  proof (elim disjE exE conjE)
    fix e assume "r1 = Inl e" "check env c = (h1, Inl e)"
    with np f show ?thesis by auto
  next
    fix vals ea e
    assume "plugin_events (action_module env c) (Positional vals) ea (Inl e)"
      "check env c = (h1 @ ea, Inl e)"
    with np f show ?thesis by (auto simp: plugin_events_def)
  next
    fix vals mv e
    assume "truthy (prometheus_gateway c)"
      "check env c =
              (h1 @ [Import (action_module env c) None,
                     Call (action_module env c) (Positional vals) (Inr mv),
                     Push (gauge_request c mv) (Some e)], Inl e)"
    with np f g [of mv] t show ?thesis by auto
  next
    fix vals mv ek r
    assume "plugin_events (comparator_module env c)
               (Keywords (dict_or (attributes c) [(''metric'', mv)])) ek r"
      "check env c =
              (h1 @ [Import (action_module env c) None,
                     Call (action_module env c) (Positional vals) (Inr mv)]
                  @ (if truthy (prometheus_gateway c) then [Push (gauge_request c mv) None] else [])
                  @ ek,
               case r of Inl e \<Rightarrow> Inl e | Inr x \<Rightarrow> Inr ())"
    with np f g [of mv] t show ?thesis by (auto simp: plugin_events_def split: if_splits)
  qed
qed

theorem no_push_without_gateway_witness:
  "prometheus_gateway (example_checker\<lparr>prometheus_gateway := None\<rparr>) = None
   \<and> filter is_push (fst (check example_env (example_checker\<lparr>prometheus_gateway := None\<rparr>))) = []
   \<and> Push (gauge_request example_checker (PInt 12)) None
         \<in> set (fst (check example_env example_checker))
   \<and> (\<exists>g. prometheus_gateway example_checker = Some g \<and> g \<noteq> []
          \<and> push_gateway (gauge_request example_checker (PInt 12)) = Some g)"
proof -
  have a: "prometheus_gateway (example_checker\<lparr>prometheus_gateway := None\<rparr>) = None"
    by simp
  have b: "Push (gauge_request example_checker (PInt 12)) None
         \<in> set (fst (check example_env example_checker))"
    by (simp add: example_check)
  from no_push_without_gateway [of "example_checker\<lparr>prometheus_gateway := None\<rparr>" example_env] a
  have "filter is_push (fst (check example_env (example_checker\<lparr>prometheus_gateway := None\<rparr>))) = []"
    by blast
  moreover from no_push_without_gateway [of example_checker example_env] b
  have "\<exists>g. prometheus_gateway example_checker = Some g \<and> g \<noteq> []
          \<and> push_gateway (gauge_request example_checker (PInt 12)) = Some g"
    by blast
  ultimately show ?thesis using a b by blast
qed



text \<open>
  C10. The constructor stores the lower-case forms of the metric name and of the
  prefix, which have no upper-case letter whatever the case of the arguments; every
  push of a run publishes the gauge under the first and under the job of the second.
\<close>

theorem prometheus_names_lowercase:
  assumes "init table name prefix srcs attrs conns gateway = Inr c"
  shows "prometheus_metric_name c = lower name
       \<and> prometheus_metric_prefix c = lower prefix
       \<and> set (lower name) \<inter> set ''ABCDEFGHIJKLMNOPQRSTUVWXYZ'' = {}
       \<and> set (lower prefix) \<inter> set ''ABCDEFGHIJKLMNOPQRSTUVWXYZ'' = {}
       \<and> (\<forall>req r. Push req r \<in> set (fst (check env c)) \<longrightarrow>
             gauge_name req = lower name \<and> push_job req = lower prefix)"
proof -
  from assms have n: "prometheus_metric_name c = lower name"
    and p: "prometheus_metric_prefix c = lower prefix"
    by (auto simp: init_def split: sum.splits)
  have "gauge_name req = lower name \<and> push_job req = lower prefix"
    if "Push req r \<in> set (fst (check env c))" for req r
    using check_push_request [OF that] n p by (auto simp: gauge_request_def)
  with n p lower_no_upper show ?thesis by blast
qed


theorem prometheus_names_lowercase_witness:
  "init example_table ''Row_Count'' ''DQ_Checks'' example_sources
     [(''day'', PStr ''2024-01-01''), (''threshold'', PInt 10)]
     [(''warehouse'', [(''host'', PStr ''db1'')]), (''replica'', [(''host'', PStr ''db2'')])]
     (Some ''gateway:9091'') = Inr example_checker
   \<and> prometheus_metric_name example_checker = lower ''Row_Count''
   \<and> prometheus_metric_prefix example_checker = lower ''DQ_Checks''
   \<and> lower ''Row_Count'' = ''row_count''
   \<and> lower ''DQ_Checks'' = ''dq_checks''
   \<and> Push (gauge_request example_checker (PInt 12)) None
        \<in> set (fst (check example_env example_checker))
   \<and> gauge_name (gauge_request example_checker (PInt 12)) = lower ''Row_Count''
   \<and> push_job (gauge_request example_checker (PInt 12)) = lower ''DQ_Checks''"
proof -
  have p: "Push (gauge_request example_checker (PInt 12)) None
        \<in> set (fst (check example_env example_checker))"
    by (simp add: example_check)
  have l: "lower ''Row_Count'' = ''row_count''" "lower ''DQ_Checks'' = ''dq_checks''"
    by (simp_all add: lower_def lower_char_def)
  from prometheus_names_lowercase [OF example_init, of example_env] p l example_init
  show ?thesis by blast
qed

end
